theory Spec2Isabelle
  imports Complex_Main "HOL-Library.Word"
begin

unbundle bit_operations_syntax

section \<open>The WiZ light adapter (homeassistant/components/wiz_light/light.py)\<close>

subsection \<open>Exceptions and results\<close>

text \<open>
  The three exception classes of the device client are distinct siblings; the adapter
  imports and catches them separately. \<open>ZeroDivisionError\<close>, \<open>AttributeError\<close>,
  \<open>TypeError\<close> and \<open>ValueError\<close> are the Python built-ins. Every one of them is an
  instance of \<open>Exception\<close>, so a bare \<open>except Exception\<close> catches all of them.
\<close>

datatype exn =
    WizLightTimeOutError
  | WizLightConnectionError
  | WizLightNotKnownBulb
  | ZeroDivisionError
  | AttributeError
  | TypeError
  | ValueError

text \<open>
  A method of the adapter mutates the object and may raise. The object keeps the
  mutations made before the raise, so a method returns the exception raised, if any,
  together with the object as it is left behind.
\<close>

type_synonym 's res = "exn option \<times> 's"

definition and_then :: "'s res \<Rightarrow> ('s \<Rightarrow> 's res) \<Rightarrow> 's res" where
  "and_then r f = (case r of (None, s) \<Rightarrow> f s | (Some e, s) \<Rightarrow> (Some e, s))"

subsection \<open>Values of the device client\<close>

text \<open>
  A brightness reported by the device is either an integer or a value that the built-in
  \<open>int()\<close> rejects by raising (\<open>NotInt\<close>, for instance a list or a non-numeric string).
\<close>

datatype pyval = PyInt int | NotInt

definition py_int :: "pyval \<Rightarrow> exn + int" where
  "py_int v = (case v of PyInt n \<Rightarrow> Inr n | NotInt \<Rightarrow> Inl TypeError)"

type_synonym hs = "real \<times> real"
type_synonym rgb = "int \<times> int \<times> int"

text \<open>The parsed status of the bulb: what the getters of \<open>self._light.state\<close> return.\<close>

record pilot_parser =
  get_state :: "bool option"
  get_brightness :: "pyval option"
  get_colortemp :: "int option"
  get_rgb :: "(int option \<times> int option \<times> int option) option"
  get_scene :: "string option"

text \<open>
  The capability descriptor. Reading \<open>features\<close> or \<open>kelvin_range\<close> may raise
  (the adapter guards both reads with \<open>except WizLightNotKnownBulb\<close>).
\<close>

record features_rec =
  feat_brightness :: bool
  feat_color :: bool
  feat_effect :: bool
  feat_color_tmp :: bool

record kelvin_range_rec =
  kr_min :: int
  kr_max :: int

record bulb_type =
  bt_name :: string
  features :: "exn + features_rec"
  kelvin_range :: "exn + kelvin_range_rec"

text \<open>The command object, as the arguments given to its constructor.\<close>

record pilot_builder =
  pb_rgb :: "rgb option"
  pb_brightness :: "int option"
  pb_colortemp :: "int option"
  pb_scene :: "int option"

definition PilotBuilder ::
  "rgb option \<Rightarrow> int option \<Rightarrow> int option \<Rightarrow> int option \<Rightarrow> pilot_builder" where
  "PilotBuilder r b c sc = \<lparr>pb_rgb = r, pb_brightness = b, pb_colortemp = c, pb_scene = sc\<rparr>"

text \<open>\<open>PilotBuilder()\<close>: every argument at its default \<open>None\<close>.\<close>

definition PilotBuilder_default :: pilot_builder where
  "PilotBuilder_default = PilotBuilder None None None None"

text \<open>The calls made on the device client, in order.\<close>

datatype client_call =
    UpdateState
  | GetBulbtype
  | GetMac
  | TurnOn pilot_builder
  | TurnOff

text \<open>
  The device client is an external library, so what it answers when called is a
  parameter of every operation: a value, or the exception it raises.
  \<open>io_updateState\<close> gives the new value of \<open>self._light.state\<close>; on a raise that
  attribute keeps its value. The converters of \<open>homeassistant.util.color\<close> between HS
  and RGB work on floats and are parameters as well; \<open>SCENES\<close> is the client's scene
  table.
\<close>

record light_io =
  io_updateState :: "exn + pilot_parser option"
  io_get_bulbtype :: "exn + bulb_type"
  io_getMac :: "exn + string option"
  io_turn_on :: "pilot_builder \<Rightarrow> exn option"
  io_turn_off :: "exn option"
  get_id_from_scene_name :: "string \<Rightarrow> exn + int"
  color_hs_to_RGB :: "real \<Rightarrow> real \<Rightarrow> rgb"
  color_RGB_to_hs :: "int option \<Rightarrow> int option \<Rightarrow> int option \<Rightarrow> exn + hs option"
  SCENES :: "(int \<times> string) list"

subsection \<open>The adapter object\<close>

text \<open>A log record: its level, and the message template or the exception logged.\<close>

datatype log_level = DEBUG | INFO | ERROR

datatype log_payload = Msg string | Exc exn

record wiz_bulb =
  light_state :: "pilot_parser option"
  calls :: "client_call list"
  state :: "bool option"
  brightness :: "int option"
  name :: string
  rgb_color :: "rgb option"
  temperature :: "int option"
  hscolor :: "hs option"
  available :: "bool option"
  effect :: "string option"
  scenes :: "string list"
  bulbtype :: "bulb_type option"
  mac :: "string option"
  logged :: "(log_level \<times> log_payload) list"

definition WizBulb :: "string \<Rightarrow> wiz_bulb" where
  "WizBulb n =
     \<lparr>light_state = None, calls = [], state = None, brightness = None, name = n,
      rgb_color = None, temperature = None, hscolor = None, available = None,
      effect = None, scenes = [], bulbtype = None, mac = None, logged = []\<rparr>"

definition log_msg :: "log_level \<Rightarrow> string \<Rightarrow> wiz_bulb \<Rightarrow> wiz_bulb" where
  "log_msg lv m s = s\<lparr>logged := logged s @ [(lv, Msg m)]\<rparr>"

definition log_exc :: "log_level \<Rightarrow> exn \<Rightarrow> wiz_bulb \<Rightarrow> wiz_bulb" where
  "log_exc lv ex s = s\<lparr>logged := logged s @ [(lv, Exc ex)]\<rparr>"

definition called :: "client_call \<Rightarrow> wiz_bulb \<Rightarrow> wiz_bulb" where
  "called c s = s\<lparr>calls := calls s @ [c]\<rparr>"

text \<open>\<open>self._light.status\<close>: the on/off flag of the last parsed status, if there is one.\<close>

definition status :: "wiz_bulb \<Rightarrow> bool option" where
  "status s = (case light_state s of None \<Rightarrow> None | Some p \<Rightarrow> get_state p)"

subsection \<open>Unit conversion\<close>

text \<open>
  Modelled from the spec: \<open>color_temperature_kelvin_to_mired\<close> and
  \<open>color_temperature_mired_to_kelvin\<close> of \<open>homeassistant.util.color\<close> are not among
  the sources. The spec's glossary gives the mired as the reciprocal unit
  \<open>10^6 / kelvin\<close>; the quotient is rounded down to an integer, and a zero argument
  raises as a Python division does.
\<close>

definition color_temperature_kelvin_to_mired :: "int \<Rightarrow> exn + int" where
  "color_temperature_kelvin_to_mired k =
     (if k = 0 then Inl ZeroDivisionError else Inr (1000000 div k))"

definition color_temperature_mired_to_kelvin :: "int \<Rightarrow> exn + int" where
  "color_temperature_mired_to_kelvin m =
     (if m = 0 then Inl ZeroDivisionError else Inr (1000000 div m))"

text \<open>
  Modelled from the spec: the four feature flags of \<open>homeassistant.components.light\<close>
  are not among the sources; the spec names them as the bits of a feature bitmask. The
  values are the host framework's, and no property below depends on them.
\<close>

definition SUPPORT_BRIGHTNESS :: int where "SUPPORT_BRIGHTNESS = 1"
definition SUPPORT_COLOR_TEMP :: int where "SUPPORT_COLOR_TEMP = 2"
definition SUPPORT_EFFECT :: int where "SUPPORT_EFFECT = 4"
definition SUPPORT_COLOR :: int where "SUPPORT_COLOR = 16"

subsection \<open>Polling\<close>

definition update_state_available :: "wiz_bulb \<Rightarrow> wiz_bulb" where
  "update_state_available s = s\<lparr>state := status s, available := Some True\<rparr>"

definition update_state_unavailable :: "wiz_bulb \<Rightarrow> wiz_bulb" where
  "update_state_unavailable s = s\<lparr>state := Some False, available := Some False\<rparr>"

definition update_state :: "light_io \<Rightarrow> wiz_bulb \<Rightarrow> wiz_bulb res" where
  "update_state io s0 =
     (let s = called UpdateState s0 in
      case io_updateState io of
        Inr st \<Rightarrow>
          (let s1 = s\<lparr>light_state := st\<rparr> in
           if light_state s1 = None
           then (None, log_msg DEBUG ''updated state: %s''
                   (update_state_unavailable (log_msg DEBUG ''state unavailable: %s'' s1)))
           else (None, log_msg DEBUG ''updated state: %s'' (update_state_available s1)))
      | Inl ex \<Rightarrow>
          (if ex = WizLightTimeOutError
           then (None, log_msg DEBUG ''updated state: %s''
                   (update_state_unavailable (log_exc DEBUG ex s)))
           else (Some ex, s)))"

definition update_brightness :: "wiz_bulb \<Rightarrow> wiz_bulb res" where
  "update_brightness s =
     (case light_state s of
        None \<Rightarrow> (Some AttributeError, s)
      | Some p \<Rightarrow>
          (case get_brightness p of
             None \<Rightarrow> (None, s)
           | Some b \<Rightarrow>
               (case py_int b of
                  Inr n \<Rightarrow>
                    (if 0 \<le> n \<and> n \<le> 255
                     then (None, s\<lparr>brightness := Some n\<rparr>)
                     else (None, (log_msg ERROR
                             ''Received invalid brightness : %s. Expected: 0-255'' s)
                             \<lparr>brightness := None\<rparr>))
                | Inl ex \<Rightarrow> (None, (log_exc ERROR ex s)\<lparr>state := None\<rparr>))))"

definition update_temperature :: "wiz_bulb \<Rightarrow> wiz_bulb res" where
  "update_temperature s =
     (case light_state s of
        None \<Rightarrow> (Some AttributeError, s)
      | Some p \<Rightarrow>
          (case get_colortemp p of
             None \<Rightarrow> (None, s)
           | Some colortemp \<Rightarrow>
               (if colortemp = 0 then (None, s)
                else
                  (let s1 = log_msg DEBUG ''kelvin from the bulb: %s'' s in
                   case color_temperature_kelvin_to_mired colortemp of
                     Inr t \<Rightarrow> (None, s1\<lparr>temperature := Some t\<rparr>)
                   | Inl ex \<Rightarrow>
                       (None, (log_msg ERROR ''Cannot evaluate temperature'' s1)
                                \<lparr>temperature := None\<rparr>)))))"

definition update_color :: "light_io \<Rightarrow> wiz_bulb \<Rightarrow> wiz_bulb res" where
  "update_color io s =
     (case light_state s of
        None \<Rightarrow> (Some AttributeError, s)
      | Some p \<Rightarrow>
          (case get_rgb p of
             None \<Rightarrow> (None, s)
           | Some (red, green, blue) \<Rightarrow>
               (if red = None then (None, s)
                else
                  (case color_RGB_to_hs io red green blue of
                     Inr (Some c) \<Rightarrow> (None, s\<lparr>hscolor := Some c\<rparr>)
                   | Inr None \<Rightarrow>
                       (None, (log_msg ERROR ''Received invalid HS color : %s'' s)
                                \<lparr>hscolor := None\<rparr>)
                   | Inl ex \<Rightarrow>
                       (None, (log_msg ERROR ''Cannot evaluate color'' s)
                                \<lparr>hscolor := None\<rparr>)))))"

definition update_effect :: "wiz_bulb \<Rightarrow> wiz_bulb res" where
  "update_effect s =
     (case light_state s of
        None \<Rightarrow> (Some AttributeError, s)
      | Some p \<Rightarrow> (None, s\<lparr>effect := get_scene p\<rparr>))"

definition update_scene_list :: "light_io \<Rightarrow> wiz_bulb \<Rightarrow> wiz_bulb res" where
  "update_scene_list io s = (None, s\<lparr>scenes := map snd (SCENES io)\<rparr>)"

definition get_bulb_type :: "light_io \<Rightarrow> wiz_bulb \<Rightarrow> wiz_bulb res" where
  "get_bulb_type io s =
     (if bulbtype s = None
      then
        (let s1 = called GetBulbtype s in
         case io_get_bulbtype io of
           Inr bt \<Rightarrow> (None, log_msg INFO ''Initiate the WiZ bulb as %s'' (s1\<lparr>bulbtype := Some bt\<rparr>))
         | Inl ex \<Rightarrow>
             (if ex = WizLightTimeOutError
              then (None, log_msg DEBUG ''Bulbtype update failed - Timeout'' s1)
              else (Some ex, s1)))
      else (None, s))"

definition get_mac :: "light_io \<Rightarrow> wiz_bulb \<Rightarrow> wiz_bulb res" where
  "get_mac io s =
     (let s1 = called GetMac s in
      case io_getMac io of
        Inr m \<Rightarrow> (None, s1\<lparr>mac := m\<rparr>)
      | Inl ex \<Rightarrow>
          (if ex = WizLightTimeOutError
           then (None, log_msg DEBUG ''Mac update failed - Timeout'' s1)
           else (Some ex, s1)))"

text \<open>The condition under which a poll cycle refreshes the derived attributes.\<close>

definition refresh_wanted :: "wiz_bulb \<Rightarrow> bool" where
  "refresh_wanted s = (state s \<noteq> None \<and> state s \<noteq> Some False)"

text \<open>
  The body of that conditional. Each of the five updates runs after the previous one
  whatever it stored; only a raise ends the sequence.
\<close>

definition refresh_derived :: "light_io \<Rightarrow> wiz_bulb \<Rightarrow> wiz_bulb res" where
  "refresh_derived io s =
     and_then (and_then (and_then (and_then (update_brightness s)
       update_temperature) (update_color io)) update_effect) (update_scene_list io)"

definition async_update :: "light_io \<Rightarrow> wiz_bulb \<Rightarrow> wiz_bulb res" where
  "async_update io s =
     and_then (and_then (and_then (update_state io s) (get_bulb_type io)) (get_mac io))
       (\<lambda>s1. if refresh_wanted s1 then refresh_derived io s1 else (None, s1))"

subsection \<open>Feature and range reporting\<close>

definition featuremap :: "wiz_bulb \<Rightarrow> exn + int" where
  "featuremap s =
     (case bulbtype s of
        None \<Rightarrow> Inl AttributeError
      | Some bt \<Rightarrow>
          (case features bt of
             Inr f \<Rightarrow>
               (let features0 = 0;
                    features1 = (if feat_brightness f then features0 OR SUPPORT_BRIGHTNESS
                                 else features0);
                    features2 = (if feat_color f then features1 OR SUPPORT_COLOR
                                 else features1);
                    features3 = (if feat_effect f then features2 OR SUPPORT_EFFECT
                                 else features2);
                    features4 = (if feat_color_tmp f then features3 OR SUPPORT_COLOR_TEMP
                                 else features3)
                in Inr features4)
           | Inl ex \<Rightarrow>
               (if ex = WizLightNotKnownBulb
                then Inr (SUPPORT_BRIGHTNESS OR SUPPORT_COLOR OR SUPPORT_COLOR_TEMP
                            OR SUPPORT_EFFECT)
                else Inl ex)))"

definition kelvin_max_map :: "wiz_bulb \<Rightarrow> exn + int" where
  "kelvin_max_map s =
     (case bulbtype s of
        None \<Rightarrow> Inl AttributeError
      | Some bt \<Rightarrow>
          (case kelvin_range bt of
             Inr r \<Rightarrow> color_temperature_kelvin_to_mired (kr_max r)
           | Inl ex \<Rightarrow> (if ex = WizLightNotKnownBulb then Inr 6500 else Inl ex)))"

definition kelvin_min_map :: "wiz_bulb \<Rightarrow> exn + int" where
  "kelvin_min_map s =
     (case bulbtype s of
        None \<Rightarrow> Inl AttributeError
      | Some bt \<Rightarrow>
          (case kelvin_range bt of
             Inr r \<Rightarrow> color_temperature_kelvin_to_mired (kr_min r)
           | Inl ex \<Rightarrow> (if ex = WizLightNotKnownBulb then Inr 2500 else Inl ex)))"

definition min_mireds :: "wiz_bulb \<Rightarrow> exn + int" where
  "min_mireds s =
     (if bulbtype s \<noteq> None then kelvin_max_map s
      else color_temperature_kelvin_to_mired 6500)"

definition max_mireds :: "wiz_bulb \<Rightarrow> exn + int" where
  "max_mireds s =
     (if bulbtype s \<noteq> None then kelvin_min_map s
      else color_temperature_kelvin_to_mired 2500)"

definition supported_features :: "wiz_bulb \<Rightarrow> exn + int" where
  "supported_features s =
     (if bulbtype s \<noteq> None then featuremap s
      else Inr (SUPPORT_BRIGHTNESS OR SUPPORT_COLOR OR SUPPORT_COLOR_TEMP OR SUPPORT_EFFECT))"

subsection \<open>Command dispatch\<close>

text \<open>The keyword arguments of a turn-on request; an absent key is \<open>None\<close>.\<close>

record kwargs =
  ATTR_RGB_COLOR :: "rgb option"
  ATTR_HS_COLOR :: "hs option"
  ATTR_BRIGHTNESS :: "int option"
  ATTR_COLOR_TEMP :: "int option"
  ATTR_EFFECT :: "string option"

text \<open>
  The four locals of \<open>async_turn_on\<close>. The two conversions that can raise do so before
  anything is sent.
\<close>

definition turn_on_rgb :: "light_io \<Rightarrow> kwargs \<Rightarrow> rgb option" where
  "turn_on_rgb io kw =
     (let rgb = ATTR_RGB_COLOR kw in
      case ATTR_HS_COLOR kw of
        Some (h, sat) \<Rightarrow> Some (color_hs_to_RGB io h sat)
      | None \<Rightarrow> rgb)"

definition turn_on_colortemp :: "kwargs \<Rightarrow> exn + int option" where
  "turn_on_colortemp kw =
     (case ATTR_COLOR_TEMP kw of
        None \<Rightarrow> Inr None
      | Some m \<Rightarrow>
          (case color_temperature_mired_to_kelvin m of
             Inr kelvin \<Rightarrow> Inr (Some kelvin)
           | Inl ex \<Rightarrow> Inl ex))"

definition turn_on_sceneid :: "light_io \<Rightarrow> kwargs \<Rightarrow> exn + int option" where
  "turn_on_sceneid io kw =
     (case ATTR_EFFECT kw of
        None \<Rightarrow> Inr None
      | Some e \<Rightarrow>
          (case get_id_from_scene_name io e of
             Inr i \<Rightarrow> Inr (Some i)
           | Inl ex \<Rightarrow> Inl ex))"

definition async_turn_on :: "light_io \<Rightarrow> kwargs \<Rightarrow> wiz_bulb \<Rightarrow> wiz_bulb res" where
  "async_turn_on io kw s =
     (let rgb = turn_on_rgb io kw;
          brightness = ATTR_BRIGHTNESS kw
      in case turn_on_colortemp kw of
           Inl ex \<Rightarrow> (Some ex, s)
         | Inr colortemp \<Rightarrow>
             (let s1 = (if ATTR_COLOR_TEMP kw \<noteq> None
                        then log_msg DEBUG ''kelvin changed and send to bulb: %s'' s else s)
              in case turn_on_sceneid io kw of
                   Inl ex \<Rightarrow> (Some ex, s1)
                 | Inr sceneid \<Rightarrow>
                     (let pilot = (if sceneid = Some 1000 then PilotBuilder_default
                                   else PilotBuilder rgb brightness colortemp sceneid)
                      in (io_turn_on io pilot, called (TurnOn pilot) s1))))"

definition async_turn_off :: "light_io \<Rightarrow> wiz_bulb \<Rightarrow> wiz_bulb res" where
  "async_turn_off io s = (io_turn_off io, called TurnOff s)"

subsection \<open>Example devices and requests\<close>

definition example_status :: pilot_parser where
  "example_status =
     \<lparr>get_state = Some True, get_brightness = Some (PyInt 200), get_colortemp = Some 2700,
      get_rgb = Some (Some 255, Some 0, Some 0), get_scene = Some ''Ocean''\<rparr>"

definition example_bulb_type :: bulb_type where
  "example_bulb_type =
     \<lparr>bt_name = ''ESP01_SHRGB1C_31'',
      features = Inr \<lparr>feat_brightness = True, feat_color = True, feat_effect = True,
                        feat_color_tmp = True\<rparr>,
      kelvin_range = Inr \<lparr>kr_min = 2200, kr_max = 6500\<rparr>\<rparr>"

definition unknown_bulb_type :: bulb_type where
  "unknown_bulb_type =
     \<lparr>bt_name = ''ESP99_UNLISTED'', features = Inl WizLightNotKnownBulb,
      kelvin_range = Inl WizLightNotKnownBulb\<rparr>"

definition example_io :: light_io where
  "example_io =
     \<lparr>io_updateState = Inr (Some example_status),
      io_get_bulbtype = Inr example_bulb_type,
      io_getMac = Inr (Some ''a8bb50d4e5f6''),
      io_turn_on = (\<lambda>p. None),
      io_turn_off = None,
      get_id_from_scene_name =
        (\<lambda>n. if n = ''Rhythm'' then Inr 1000 else if n = ''Ocean'' then Inr 1
             else Inl ValueError),
      color_hs_to_RGB = (\<lambda>h sat. (255, 0, 0)),
      color_RGB_to_hs = (\<lambda>r g b. Inr (Some (0, 100))),
      SCENES = [(1, ''Ocean''), (1000, ''Rhythm'')]\<rparr>"

definition example_bulb :: wiz_bulb where
  "example_bulb =
     (WizBulb ''lamp'')
       \<lparr>light_state := Some example_status, state := Some True, brightness := Some 128,
        temperature := Some 370, hscolor := Some (30, 50), available := Some True,
        effect := Some ''Cozy''\<rparr>"

definition no_kwargs :: kwargs where
  "no_kwargs =
     \<lparr>ATTR_RGB_COLOR = None, ATTR_HS_COLOR = None, ATTR_BRIGHTNESS = None,
      ATTR_COLOR_TEMP = None, ATTR_EFFECT = None\<rparr>"

text \<open>An answer of the device client that the three fetches survive.\<close>

definition timeout_or_ok :: "exn + 'a \<Rightarrow> bool" where
  "timeout_or_ok r = (case r of Inl ex \<Rightarrow> ex = WizLightTimeOutError | Inr v \<Rightarrow> True)"

definition timeout_io :: light_io where
  "timeout_io = example_io\<lparr>io_updateState := Inl WizLightTimeOutError\<rparr>"

text \<open>The example bulb after the device has reported the status \<open>p\<close>.\<close>

definition reporting :: "pilot_parser \<Rightarrow> wiz_bulb" where
  "reporting p = example_bulb\<lparr>light_state := Some p\<rparr>"

text \<open>
  The attributes the adapter caches, apart from the client's own status, the record of
  the calls made and the log.
\<close>

definition cache_of ::
  "wiz_bulb \<Rightarrow> bool option \<times> int option \<times> string \<times> rgb option \<times> int option \<times> hs option
     \<times> bool option \<times> string option \<times> string list \<times> bulb_type option \<times> string option" where
  "cache_of s =
     (state s, brightness s, name s, rgb_color s, temperature s, hscolor s, available s,
      effect s, scenes s, bulbtype s, mac s)"

definition turn_on_timeout_io :: light_io where
  "turn_on_timeout_io = example_io\<lparr>io_turn_on := (\<lambda>p. Some WizLightTimeOutError)\<rparr>"

definition turn_off_timeout_io :: light_io where
  "turn_off_timeout_io = example_io\<lparr>io_turn_off := Some WizLightTimeOutError\<rparr>"

definition unreachable_io :: light_io where
  "unreachable_io = example_io\<lparr>io_updateState := Inl WizLightConnectionError\<rparr>"

definition all_timeout_io :: light_io where
  "all_timeout_io =
     example_io\<lparr>io_updateState := Inl WizLightTimeOutError,
                io_get_bulbtype := Inl WizLightTimeOutError,
                io_getMac := Inl WizLightTimeOutError\<rparr>"

definition bulbtype_timeout_io :: light_io where
  "bulbtype_timeout_io = example_io\<lparr>io_get_bulbtype := Inl WizLightTimeOutError\<rparr>"

definition unknown_bulb :: wiz_bulb where
  "unknown_bulb = example_bulb\<lparr>bulbtype := Some unknown_bulb_type\<rparr>"

definition known_bulb :: wiz_bulb where
  "known_bulb =
     example_bulb\<lparr>bulbtype := Some example_bulb_type, mac := Some ''a8bb50d4e5f6''\<rparr>"

definition rhythm_kwargs :: kwargs where
  "rhythm_kwargs =
     \<lparr>ATTR_RGB_COLOR = Some (0, 0, 255), ATTR_HS_COLOR = None, ATTR_BRIGHTNESS = Some 200,
      ATTR_COLOR_TEMP = Some 250, ATTR_EFFECT = Some ''Rhythm''\<rparr>"

definition both_colors_kwargs :: kwargs where
  "both_colors_kwargs =
     \<lparr>ATTR_RGB_COLOR = Some (0, 0, 255), ATTR_HS_COLOR = Some (0, 100),
      ATTR_BRIGHTNESS = None, ATTR_COLOR_TEMP = None, ATTR_EFFECT = None\<rparr>"

text \<open>
  What the caller of a fetch sees of its answer: the three fetches of a poll cycle catch
  a timeout and nothing else.
\<close>

definition raised :: "exn + 'a \<Rightarrow> exn option" where
  "raised r =
     (case r of
        Inl ex \<Rightarrow> (if ex = WizLightTimeOutError then None else Some ex)
      | Inr v \<Rightarrow> None)"


definition rhythm_both_kwargs :: kwargs where
  "rhythm_both_kwargs =
     \<lparr>ATTR_RGB_COLOR = Some (0, 0, 255), ATTR_HS_COLOR = Some (0, 100),
      ATTR_BRIGHTNESS = None, ATTR_COLOR_TEMP = None, ATTR_EFFECT = Some ''Rhythm''\<rparr>"

section \<open>Properties\<close>

subsection \<open>Sequencing and frame lemmas\<close>

lemma and_then_None [simp]: "and_then (None, s) f = f s"
  by (simp add: and_then_def)

lemma and_then_Some [simp]: "and_then (Some e, s) f = (Some e, s)"
  by (simp add: and_then_def)

lemma and_then_ok: "fst r = None \<Longrightarrow> and_then r f = f (snd r)"
  by (cases r) simp

lemma update_state_unavailable_when:
  assumes "io_updateState io = Inl WizLightTimeOutError \<or> io_updateState io = Inr None"
  shows "\<exists>s1. update_state io s = (None, s1) \<and> available s1 = Some False \<and> state s1 = Some False
     \<and> brightness s1 = brightness s \<and> hscolor s1 = hscolor s \<and> temperature s1 = temperature s
     \<and> effect s1 = effect s"
  using assms
  by (auto simp: update_state_def update_state_unavailable_def log_msg_def log_exc_def
        called_def Let_def)

lemma get_bulb_type_frame:
  "available (snd (get_bulb_type io s)) = available s \<and> state (snd (get_bulb_type io s)) = state s
   \<and> brightness (snd (get_bulb_type io s)) = brightness s
   \<and> hscolor (snd (get_bulb_type io s)) = hscolor s
   \<and> temperature (snd (get_bulb_type io s)) = temperature s
   \<and> effect (snd (get_bulb_type io s)) = effect s"
  by (simp add: get_bulb_type_def log_msg_def called_def Let_def split: sum.splits)

lemma get_mac_frame:
  "available (snd (get_mac io s)) = available s \<and> state (snd (get_mac io s)) = state s
   \<and> brightness (snd (get_mac io s)) = brightness s
   \<and> hscolor (snd (get_mac io s)) = hscolor s
   \<and> temperature (snd (get_mac io s)) = temperature s
   \<and> effect (snd (get_mac io s)) = effect s"
  by (simp add: get_mac_def log_msg_def called_def Let_def split: sum.splits)

lemma update_brightness_fst: "light_state s \<noteq> None \<Longrightarrow> fst (update_brightness s) = None"
  by (auto simp: update_brightness_def split: option.splits sum.splits)

lemma update_brightness_frame:
  "light_state (snd (update_brightness s)) = light_state s"
  "temperature (snd (update_brightness s)) = temperature s"
  "hscolor (snd (update_brightness s)) = hscolor s"
  "effect (snd (update_brightness s)) = effect s"
  by (simp_all add: update_brightness_def log_msg_def log_exc_def split: option.splits sum.splits)

lemma update_temperature_fst: "light_state s \<noteq> None \<Longrightarrow> fst (update_temperature s) = None"
  by (auto simp: update_temperature_def Let_def split: option.splits sum.splits)

lemma update_temperature_frame:
  "light_state (snd (update_temperature s)) = light_state s"
  "state (snd (update_temperature s)) = state s"
  "brightness (snd (update_temperature s)) = brightness s"
  "hscolor (snd (update_temperature s)) = hscolor s"
  "effect (snd (update_temperature s)) = effect s"
  by (simp_all add: update_temperature_def log_msg_def Let_def split: option.splits sum.splits)

lemma update_color_fst: "light_state s \<noteq> None \<Longrightarrow> fst (update_color io s) = None"
  by (auto simp: update_color_def split: option.splits sum.splits prod.splits)

lemma update_color_frame:
  "light_state (snd (update_color io s)) = light_state s"
  "state (snd (update_color io s)) = state s"
  "brightness (snd (update_color io s)) = brightness s"
  "temperature (snd (update_color io s)) = temperature s"
  "effect (snd (update_color io s)) = effect s"
  by (simp_all add: update_color_def log_msg_def split: option.splits sum.splits prod.splits)

lemma update_effect_fst: "light_state s \<noteq> None \<Longrightarrow> fst (update_effect s) = None"
  by (auto simp: update_effect_def split: option.splits)

lemma update_effect_frame:
  "light_state (snd (update_effect s)) = light_state s"
  "state (snd (update_effect s)) = state s"
  "brightness (snd (update_effect s)) = brightness s"
  "temperature (snd (update_effect s)) = temperature s"
  "hscolor (snd (update_effect s)) = hscolor s"
  by (simp_all add: update_effect_def split: option.splits)

lemma update_scene_list_fst: "fst (update_scene_list io s) = None"
  by (simp add: update_scene_list_def)

lemma update_scene_list_frame:
  "light_state (snd (update_scene_list io s)) = light_state s"
  "state (snd (update_scene_list io s)) = state s"
  "brightness (snd (update_scene_list io s)) = brightness s"
  "temperature (snd (update_scene_list io s)) = temperature s"
  "hscolor (snd (update_scene_list io s)) = hscolor s"
  "effect (snd (update_scene_list io s)) = effect s"
  "logged (snd (update_scene_list io s)) = logged s"
  by (simp_all add: update_scene_list_def)

lemma logged_mono:
  "set (logged s) \<subseteq> set (logged (snd (update_temperature s)))"
  "set (logged s) \<subseteq> set (logged (snd (update_color io s)))"
  "set (logged s) \<subseteq> set (logged (snd (update_effect s)))"
  by (auto simp: update_temperature_def update_color_def update_effect_def log_msg_def Let_def
           split: option.splits sum.splits prod.splits)

lemmas refresh_frame =
  update_brightness_frame update_temperature_frame update_color_frame update_effect_frame
  update_scene_list_frame

lemma refresh_derived_unfold:
  assumes "light_state s \<noteq> None"
  shows "refresh_derived io s =
           update_scene_list io (snd (update_effect (snd (update_color io
             (snd (update_temperature (snd (update_brightness s))))))))"
  using assms
  by (simp add: refresh_derived_def and_then_ok update_brightness_fst update_temperature_fst
        update_color_fst update_effect_fst refresh_frame)

lemma refresh_derived_fst: "light_state s \<noteq> None \<Longrightarrow> fst (refresh_derived io s) = None"
  by (simp add: refresh_derived_unfold update_scene_list_fst)

lemma refresh_derived_brightness:
  "light_state s \<noteq> None \<Longrightarrow>
     brightness (snd (refresh_derived io s)) = brightness (snd (update_brightness s))"
  by (simp add: refresh_derived_unfold refresh_frame)


lemma refresh_derived_temperature:
  "light_state s \<noteq> None \<Longrightarrow>
     temperature (snd (refresh_derived io s)) = temperature (snd (update_temperature (snd (update_brightness s))))"
  by (simp add: refresh_derived_unfold refresh_frame)

lemma refresh_derived_hscolor:
  "light_state s \<noteq> None \<Longrightarrow>
     hscolor (snd (refresh_derived io s)) =
       hscolor (snd (update_color io (snd (update_temperature (snd (update_brightness s))))))"
  by (simp add: refresh_derived_unfold refresh_frame)

lemma refresh_derived_logged:
  "light_state s \<noteq> None \<Longrightarrow>
     set (logged (snd (update_brightness s))) \<subseteq> set (logged (snd (refresh_derived io s)))"
  using logged_mono(1) [of "snd (update_brightness s)"]
    logged_mono(2) [of "snd (update_temperature (snd (update_brightness s)))" io]
    logged_mono(3) [of "snd (update_color io (snd (update_temperature (snd (update_brightness s)))))"]
  by (simp add: refresh_derived_unfold refresh_frame)

lemma timeout_or_ok_cases:
  "timeout_or_ok r \<Longrightarrow> r = Inl WizLightTimeOutError \<or> (\<exists>v. r = Inr v)"
  by (cases r) (simp_all add: timeout_or_ok_def)

lemma update_state_ok:
  assumes "timeout_or_ok (io_updateState io)"
  shows "fst (update_state io s) = None"
    and "refresh_wanted (snd (update_state io s)) \<Longrightarrow> light_state (snd (update_state io s)) \<noteq> None"
    and "bulbtype (snd (update_state io s)) = bulbtype s"
    and "mac (snd (update_state io s)) = mac s"
    and "calls (snd (update_state io s)) = calls s @ [UpdateState]"
  using timeout_or_ok_cases [OF assms]
  by (auto simp: update_state_def update_state_unavailable_def update_state_available_def
        refresh_wanted_def log_msg_def log_exc_def called_def Let_def split: if_splits)

lemma get_bulb_type_ok:
  assumes "timeout_or_ok (io_get_bulbtype io)"
  shows "fst (get_bulb_type io s) = None"
  using timeout_or_ok_cases [OF assms]
  by (auto simp: get_bulb_type_def Let_def)

lemma get_bulb_type_calls:
  "fst (get_bulb_type io s) = None \<Longrightarrow>
   calls (snd (get_bulb_type io s)) = calls s @ (if bulbtype s = None then [GetBulbtype] else [])"
  by (auto simp: get_bulb_type_def log_msg_def called_def Let_def split: sum.splits)

lemma get_bulb_type_frame2:
  "light_state (snd (get_bulb_type io s)) = light_state s"
  "mac (snd (get_bulb_type io s)) = mac s"
  by (simp_all add: get_bulb_type_def log_msg_def called_def Let_def split: sum.splits)

lemma get_mac_ok:
  assumes "timeout_or_ok (io_getMac io)"
  shows "fst (get_mac io s) = None"
  using timeout_or_ok_cases [OF assms]
  by (auto simp: get_mac_def Let_def)

lemma get_mac_frame2:
  "light_state (snd (get_mac io s)) = light_state s"
  "bulbtype (snd (get_mac io s)) = bulbtype s"
  "calls (snd (get_mac io s)) = calls s @ [GetMac]"
  by (simp_all add: get_mac_def log_msg_def called_def Let_def split: sum.splits)

lemma refresh_steps_frame2:
  "calls (snd (update_brightness s)) = calls s"
  "bulbtype (snd (update_brightness s)) = bulbtype s"
  "mac (snd (update_brightness s)) = mac s"
  "calls (snd (update_temperature s)) = calls s"
  "bulbtype (snd (update_temperature s)) = bulbtype s"
  "mac (snd (update_temperature s)) = mac s"
  "calls (snd (update_color io s)) = calls s"
  "bulbtype (snd (update_color io s)) = bulbtype s"
  "mac (snd (update_color io s)) = mac s"
  "calls (snd (update_effect s)) = calls s"
  "bulbtype (snd (update_effect s)) = bulbtype s"
  "mac (snd (update_effect s)) = mac s"
  "calls (snd (update_scene_list io s)) = calls s"
  "bulbtype (snd (update_scene_list io s)) = bulbtype s"
  "mac (snd (update_scene_list io s)) = mac s"
  by (simp_all add: update_brightness_def update_temperature_def update_color_def
        update_effect_def update_scene_list_def log_msg_def log_exc_def Let_def
        split: option.splits sum.splits prod.splits)

lemma refresh_derived_frame2:
  assumes "light_state s \<noteq> None"
  shows "calls (snd (refresh_derived io s)) = calls s"
    and "bulbtype (snd (refresh_derived io s)) = bulbtype s"
    and "mac (snd (refresh_derived io s)) = mac s"
  by (simp_all add: refresh_derived_unfold [OF assms] refresh_steps_frame2)

text \<open>A poll cycle whose three fetches succeed or time out, step by step.\<close>

lemma async_update_unfold:
  assumes "timeout_or_ok (io_updateState io)" "timeout_or_ok (io_get_bulbtype io)"
    "timeout_or_ok (io_getMac io)"
  shows "async_update io s =
     (let s3 = snd (get_mac io (snd (get_bulb_type io (snd (update_state io s)))))
      in if refresh_wanted s3 then refresh_derived io s3 else (None, s3))"
  by (simp add: async_update_def and_then_ok update_state_ok(1) [OF assms(1)]
        get_bulb_type_ok [OF assms(2)] get_mac_ok [OF assms(3)] Let_def)

lemma async_update_no_raise:
  assumes "timeout_or_ok (io_updateState io)" "timeout_or_ok (io_get_bulbtype io)"
    "timeout_or_ok (io_getMac io)"
  shows "fst (async_update io s) = None"
proof -
  let ?s1 = "snd (update_state io s)"
  let ?s3 = "snd (get_mac io (snd (get_bulb_type io ?s1)))"
  have st: "state ?s3 = state ?s1"
    using get_mac_frame [of io "snd (get_bulb_type io ?s1)"] get_bulb_type_frame [of io ?s1]
    by simp
  have ls: "light_state ?s3 = light_state ?s1"
    by (simp add: get_mac_frame2 get_bulb_type_frame2)
  have "light_state ?s3 \<noteq> None" if "refresh_wanted ?s3"
  proof -
    from that st have "refresh_wanted ?s1" by (simp add: refresh_wanted_def)
    then show ?thesis using update_state_ok(2) [OF assms(1)] ls by simp
  qed
  then show ?thesis
    by (simp add: async_update_unfold [OF assms] Let_def refresh_derived_fst)
qed

lemma async_update_calls:
  assumes "timeout_or_ok (io_updateState io)" "timeout_or_ok (io_get_bulbtype io)"
    "timeout_or_ok (io_getMac io)"
  shows "calls (snd (async_update io s)) =
           calls s @ [UpdateState] @ (if bulbtype s = None then [GetBulbtype] else []) @ [GetMac]
       \<and> bulbtype (snd (async_update io s)) = bulbtype (snd (get_bulb_type io (snd (update_state io s))))
       \<and> mac (snd (async_update io s))
           = mac (snd (get_mac io (snd (get_bulb_type io (snd (update_state io s))))))"
proof -
  let ?s1 = "snd (update_state io s)"
  let ?s2 = "snd (get_bulb_type io ?s1)"
  let ?s3 = "snd (get_mac io ?s2)"
  have c3: "calls ?s3 =
      calls s @ [UpdateState] @ (if bulbtype s = None then [GetBulbtype] else []) @ [GetMac]"
    using get_bulb_type_calls [OF get_bulb_type_ok [OF assms(2)], of ?s1]
    by (simp add: get_mac_frame2 update_state_ok [OF assms(1)])
  have st: "state ?s3 = state ?s1"
    using get_mac_frame [of io ?s2] get_bulb_type_frame [of io ?s1] by simp
  have ls: "light_state ?s3 = light_state ?s1"
    by (simp add: get_mac_frame2 get_bulb_type_frame2)
  have ne: "light_state ?s3 \<noteq> None" if "refresh_wanted ?s3"
  proof -
    from that st have "refresh_wanted ?s1" by (simp add: refresh_wanted_def)
    then show ?thesis using update_state_ok(2) [OF assms(1)] ls by simp
  qed
  show ?thesis
  proof (cases "refresh_wanted ?s3")
    case True
    then show ?thesis
      using c3 ne by (simp add: async_update_unfold [OF assms] Let_def refresh_derived_frame2 get_mac_frame2)
  next
    case False
    then show ?thesis
      using c3 by (simp add: async_update_unfold [OF assms] Let_def get_mac_frame2)
  qed
qed

subsection \<open>A poll cycle, case by case\<close>

lemma raised_None_iff: "raised r = None \<longleftrightarrow> timeout_or_ok r"
  by (cases r) (simp_all add: raised_def timeout_or_ok_def)

lemma update_state_cases:
  "fst (update_state io s) = raised (io_updateState io)"
  "calls (snd (update_state io s)) = calls s @ [UpdateState]"
  "bulbtype (snd (update_state io s)) = bulbtype s"
  "mac (snd (update_state io s)) = mac s"
  by (simp_all add: update_state_def update_state_unavailable_def update_state_available_def
        raised_def log_msg_def log_exc_def called_def Let_def split: sum.splits)

lemma get_bulb_type_cases:
  "fst (get_bulb_type io s) = (if bulbtype s = None then raised (io_get_bulbtype io) else None)"
  "calls (snd (get_bulb_type io s)) = calls s @ (if bulbtype s = None then [GetBulbtype] else [])"
  "bulbtype (snd (get_bulb_type io s)) =
     (if bulbtype s = None
      then (case io_get_bulbtype io of Inr bt \<Rightarrow> Some bt | Inl ex \<Rightarrow> None)
      else bulbtype s)"
  by (simp_all add: get_bulb_type_def raised_def log_msg_def called_def Let_def split: sum.splits)

lemma get_mac_cases:
  "fst (get_mac io s) = raised (io_getMac io)"
  "mac (snd (get_mac io s)) = (case io_getMac io of Inr m \<Rightarrow> m | Inl ex \<Rightarrow> mac s)"
  by (simp_all add: get_mac_def raised_def log_msg_def called_def Let_def split: sum.splits)

text \<open>The last step of a poll cycle: the refresh, when it is wanted.\<close>

lemma refresh_step:
  assumes "refresh_wanted s3 \<longrightarrow> light_state s3 \<noteq> None"
  shows "fst (if refresh_wanted s3 then refresh_derived io s3 else (None, s3)) = None
    \<and> calls (snd (if refresh_wanted s3 then refresh_derived io s3 else (None, s3))) = calls s3
    \<and> bulbtype (snd (if refresh_wanted s3 then refresh_derived io s3 else (None, s3)))
        = bulbtype s3
    \<and> mac (snd (if refresh_wanted s3 then refresh_derived io s3 else (None, s3))) = mac s3"
  using assms by (simp add: refresh_derived_fst refresh_derived_frame2)

lemma refresh_reached:
  assumes "fst (update_state io s) = None"
  shows "refresh_wanted (snd (get_mac io (snd (get_bulb_type io (snd (update_state io s))))))
     \<longrightarrow> light_state (snd (get_mac io (snd (get_bulb_type io (snd (update_state io s))))))
          \<noteq> None"
proof
  let ?s1 = "snd (update_state io s)"
  let ?s3 = "snd (get_mac io (snd (get_bulb_type io ?s1)))"
  assume w: "refresh_wanted ?s3"
  have st: "state ?s3 = state ?s1"
    using get_mac_frame [of io "snd (get_bulb_type io ?s1)"] get_bulb_type_frame [of io ?s1]
    by simp
  have ls: "light_state ?s3 = light_state ?s1"
    by (simp add: get_mac_frame2 get_bulb_type_frame2)
  from w st have "refresh_wanted ?s1" by (simp add: refresh_wanted_def)
  moreover have "timeout_or_ok (io_updateState io)"
    using assms by (simp add: update_state_cases raised_None_iff)
  ultimately show "light_state ?s3 \<noteq> None"
    using update_state_ok(2) ls by simp
qed

lemma and_then_raise: "fst r \<noteq> None \<Longrightarrow> and_then r f = r"
  by (cases r) (auto simp: and_then_def)

lemma async_update_cases:
  "fst (async_update io s) =
     (case raised (io_updateState io) of
        Some ex \<Rightarrow> Some ex
      | None \<Rightarrow>
          (case (if bulbtype s = None then raised (io_get_bulbtype io) else None) of
             Some ex \<Rightarrow> Some ex
           | None \<Rightarrow> raised (io_getMac io)))"
  "calls (snd (async_update io s)) =
     calls s @ [UpdateState] @
       (if raised (io_updateState io) \<noteq> None then []
        else (if bulbtype s = None then [GetBulbtype] else []) @
             (if bulbtype s = None \<and> raised (io_get_bulbtype io) \<noteq> None then []
              else [GetMac]))"
  "bulbtype (snd (async_update io s)) =
     (if raised (io_updateState io) = None \<and> bulbtype s = None
      then (case io_get_bulbtype io of Inr bt \<Rightarrow> Some bt | Inl ex \<Rightarrow> None)
      else bulbtype s)"
  "mac (snd (async_update io s)) =
     (if raised (io_updateState io) = None
         \<and> (if bulbtype s = None then raised (io_get_bulbtype io) else None) = None
      then (case io_getMac io of Inr m \<Rightarrow> m | Inl ex \<Rightarrow> mac s)
      else mac s)"
proof -
  define s1 where "s1 = snd (update_state io s)"
  define s2 where "s2 = snd (get_bulb_type io s1)"
  define s3 where "s3 = snd (get_mac io s2)"
  define fin where "fin = (if refresh_wanted s3 then refresh_derived io s3 else (None, s3))"
  have s1: "calls s1 = calls s @ [UpdateState]" "bulbtype s1 = bulbtype s" "mac s1 = mac s"
    by (simp_all add: s1_def update_state_cases)
  have e2: "fst (get_bulb_type io s1) =
      (if bulbtype s = None then raised (io_get_bulbtype io) else None)"
    by (simp add: get_bulb_type_cases s1)
  have s2: "calls s2 = calls s1 @ (if bulbtype s = None then [GetBulbtype] else [])"
    "bulbtype s2 =
       (if bulbtype s = None
        then (case io_get_bulbtype io of Inr bt \<Rightarrow> Some bt | Inl ex \<Rightarrow> None)
        else bulbtype s)"
    "mac s2 = mac s"
    by (simp_all add: s2_def get_bulb_type_cases get_bulb_type_frame2 s1)
  have s3: "calls s3 = calls s2 @ [GetMac]" "bulbtype s3 = bulbtype s2"
    "mac s3 = (case io_getMac io of Inr m \<Rightarrow> m | Inl ex \<Rightarrow> mac s)"
    by (simp_all add: s3_def get_mac_cases get_mac_frame2 s2 split: sum.splits)
  have fin: "fst fin = None" "calls (snd fin) = calls s3" "bulbtype (snd fin) = bulbtype s3"
    "mac (snd fin) = mac s3"
    if "fst (update_state io s) = None"
    using refresh_step [OF refresh_reached [OF that], of io]
    unfolding fin_def s3_def s2_def s1_def by blast+
  have shape: "async_update io s =
      (if fst (update_state io s) \<noteq> None then update_state io s
       else if fst (get_bulb_type io s1) \<noteq> None then get_bulb_type io s1
       else if fst (get_mac io s2) \<noteq> None then get_mac io s2
       else fin)"
    by (simp add: async_update_def and_then_ok and_then_raise s1_def s2_def s3_def fin_def)
  consider (a) ex where "raised (io_updateState io) = Some ex"
    | (b) ex where "raised (io_updateState io) = None"
        "(if bulbtype s = None then raised (io_get_bulbtype io) else None) = Some ex"
    | (c) ex where "raised (io_updateState io) = None"
        "(if bulbtype s = None then raised (io_get_bulbtype io) else None) = None"
        "raised (io_getMac io) = Some ex"
    | (d) "raised (io_updateState io) = None"
        "(if bulbtype s = None then raised (io_get_bulbtype io) else None) = None"
        "raised (io_getMac io) = None"
    by (cases "raised (io_updateState io)";
        cases "if bulbtype s = None then raised (io_get_bulbtype io) else None";
        cases "raised (io_getMac io)") auto
  then have all: "fst (async_update io s) =
     (case raised (io_updateState io) of
        Some ex \<Rightarrow> Some ex
      | None \<Rightarrow>
          (case (if bulbtype s = None then raised (io_get_bulbtype io) else None) of
             Some ex \<Rightarrow> Some ex
           | None \<Rightarrow> raised (io_getMac io)))
   \<and> calls (snd (async_update io s)) =
     calls s @ [UpdateState] @
       (if raised (io_updateState io) \<noteq> None then []
        else (if bulbtype s = None then [GetBulbtype] else []) @
             (if bulbtype s = None \<and> raised (io_get_bulbtype io) \<noteq> None then []
              else [GetMac]))
   \<and> bulbtype (snd (async_update io s)) =
     (if raised (io_updateState io) = None \<and> bulbtype s = None
      then (case io_get_bulbtype io of Inr bt \<Rightarrow> Some bt | Inl ex \<Rightarrow> None)
      else bulbtype s)
   \<and> mac (snd (async_update io s)) =
     (if raised (io_updateState io) = None
         \<and> (if bulbtype s = None then raised (io_get_bulbtype io) else None) = None
      then (case io_getMac io of Inr m \<Rightarrow> m | Inl ex \<Rightarrow> mac s)
      else mac s)"
  proof cases
    case a
    then have "async_update io s = update_state io s"
      by (simp add: shape update_state_cases)
    then show ?thesis
      using a by (simp add: update_state_cases)
  next
    case b
    then have eq: "async_update io s = get_bulb_type io s1"
      by (simp add: shape update_state_cases e2)
    from b(2) have n: "bulbtype s = None" "raised (io_get_bulbtype io) = Some ex"
      by (simp_all split: if_splits)
    from n(2) have "\<exists>e. io_get_bulbtype io = Inl e"
      by (cases "io_get_bulbtype io") (simp_all add: raised_def)
    then show ?thesis
      using b n s1 s2 by (auto simp: eq e2 s2_def [symmetric] split: if_splits)
  next
    case c
    then have eq: "async_update io s = get_mac io s2"
      by (simp add: shape update_state_cases e2 get_mac_cases)
    from c(3) have "\<exists>e. io_getMac io = Inl e"
      by (cases "io_getMac io") (simp_all add: raised_def)
    then show ?thesis
      using c s1 s2 s3 by (auto simp: eq get_mac_cases s3_def [symmetric] split: if_splits)
  next
    case d
    then have eq: "async_update io s = fin"
      by (simp add: shape update_state_cases e2 get_mac_cases)
    have u: "fst (update_state io s) = None"
      using d(1) by (simp add: update_state_cases)
    show ?thesis
      using d s1 s2 s3 fin [OF u] by (auto simp: eq split: if_splits)
  qed
  from all show "fst (async_update io s) =
     (case raised (io_updateState io) of
        Some ex \<Rightarrow> Some ex
      | None \<Rightarrow>
          (case (if bulbtype s = None then raised (io_get_bulbtype io) else None) of
             Some ex \<Rightarrow> Some ex
           | None \<Rightarrow> raised (io_getMac io)))" by blast
  from all show "calls (snd (async_update io s)) =
     calls s @ [UpdateState] @
       (if raised (io_updateState io) \<noteq> None then []
        else (if bulbtype s = None then [GetBulbtype] else []) @
             (if bulbtype s = None \<and> raised (io_get_bulbtype io) \<noteq> None then []
              else [GetMac]))" by blast
  from all show "bulbtype (snd (async_update io s)) =
     (if raised (io_updateState io) = None \<and> bulbtype s = None
      then (case io_get_bulbtype io of Inr bt \<Rightarrow> Some bt | Inl ex \<Rightarrow> None)
      else bulbtype s)" by blast
  from all show "mac (snd (async_update io s)) =
     (if raised (io_updateState io) = None
         \<and> (if bulbtype s = None then raised (io_get_bulbtype io) else None) = None
      then (case io_getMac io of Inr m \<Rightarrow> m | Inl ex \<Rightarrow> mac s)
      else mac s)" by blast
qed



subsection \<open>A failed poll\<close>

text \<open>
  Claim C1. When the status fetch of a poll cycle times out, or answers with no data,
  the cycle leaves the bulb unavailable and off, and the cached brightness, HS colour,
  colour temperature and effect are what they were before the cycle. This holds
  whatever the two later fetches of the cycle do, also when one of them raises.
\<close>

theorem poll_failure_frame:
  assumes "io_updateState io = Inl WizLightTimeOutError \<or> io_updateState io = Inr None"
  shows "available (snd (async_update io s)) = Some False
       \<and> state (snd (async_update io s)) = Some False
       \<and> brightness (snd (async_update io s)) = brightness s
       \<and> hscolor (snd (async_update io s)) = hscolor s
       \<and> temperature (snd (async_update io s)) = temperature s
       \<and> effect (snd (async_update io s)) = effect s"
proof -
  obtain s1 where u: "update_state io s = (None, s1)"
    and s1: "available s1 = Some False" "state s1 = Some False" "brightness s1 = brightness s"
      "hscolor s1 = hscolor s" "temperature s1 = temperature s" "effect s1 = effect s"
    using update_state_unavailable_when [OF assms] by blast
  obtain r2 s2 where b: "get_bulb_type io s1 = (r2, s2)" by (cases "get_bulb_type io s1")
  have s2: "available s2 = Some False" "state s2 = Some False" "brightness s2 = brightness s"
      "hscolor s2 = hscolor s" "temperature s2 = temperature s" "effect s2 = effect s"
    using get_bulb_type_frame [of io s1] b s1 by simp_all
  obtain r3 s3 where m: "get_mac io s2 = (r3, s3)" by (cases "get_mac io s2")
  have s3: "available s3 = Some False" "state s3 = Some False" "brightness s3 = brightness s"
      "hscolor s3 = hscolor s" "temperature s3 = temperature s" "effect s3 = effect s"
    using get_mac_frame [of io s2] m s2 by simp_all
  have "snd (async_update io s) = s2 \<or> snd (async_update io s) = s3"
    using u b m s3 by (cases r2; cases r3) (simp_all add: async_update_def refresh_wanted_def)
  then show ?thesis using s2 s3 by auto
qed


theorem poll_failure_frame_witness:
  "io_updateState timeout_io = Inl WizLightTimeOutError
   \<and> available (snd (async_update timeout_io example_bulb)) = Some False
   \<and> state (snd (async_update timeout_io example_bulb)) = Some False
   \<and> brightness (snd (async_update timeout_io example_bulb)) = Some 128
   \<and> hscolor (snd (async_update timeout_io example_bulb)) = Some (30, 50)
   \<and> temperature (snd (async_update timeout_io example_bulb)) = Some 370
   \<and> effect (snd (async_update timeout_io example_bulb)) = Some ''Cozy''"
proof -
  have h: "io_updateState timeout_io = Inl WizLightTimeOutError
         \<or> io_updateState timeout_io = Inr None"
    by (simp add: timeout_io_def)
  show ?thesis
    using poll_failure_frame [OF h, of example_bulb]
    by (simp add: timeout_io_def example_bulb_def WizBulb_def)
qed

subsection \<open>Refreshing the derived attributes\<close>

text \<open>
  Claim C2, as amended. When the device reports an integer brightness \<open>b\<close>: if
  \<open>0 \<le> b \<le> 255\<close> the stored brightness is \<open>b\<close>; if \<open>b\<close> is outside that range the
  stored brightness is cleared to \<open>None\<close> (it is not left at its previous value) and an
  error is logged. Both hold after \<open>update_brightness\<close> and after the whole refresh.
\<close>

theorem brightness_range_checked:
  assumes "light_state s = Some p"
    and "get_brightness p = Some (PyInt b)"
  shows "(0 \<le> b \<and> b \<le> 255 \<longrightarrow>
            brightness (snd (update_brightness s)) = Some b
          \<and> brightness (snd (refresh_derived io s)) = Some b)
       \<and> (b < 0 \<or> 255 < b \<longrightarrow>
            brightness (snd (update_brightness s)) = None
          \<and> brightness (snd (refresh_derived io s)) = None
          \<and> logged (snd (update_brightness s)) =
              logged s @ [(ERROR, Msg ''Received invalid brightness : %s. Expected: 0-255'')]
          \<and> (ERROR, Msg ''Received invalid brightness : %s. Expected: 0-255'')
              \<in> set (logged (snd (refresh_derived io s))))"
proof -
  have ne: "light_state s \<noteq> None" using assms(1) by simp
  have in_range: "brightness (snd (update_brightness s)) = Some b" if "0 \<le> b \<and> b \<le> 255"
    using assms that by (simp add: update_brightness_def py_int_def)
  have out1: "brightness (snd (update_brightness s)) = None" if "b < 0 \<or> 255 < b"
    using assms that by (auto simp: update_brightness_def py_int_def log_msg_def)
  have out2: "logged (snd (update_brightness s)) =
      logged s @ [(ERROR, Msg ''Received invalid brightness : %s. Expected: 0-255'')]"
    if "b < 0 \<or> 255 < b"
    using assms that by (auto simp: update_brightness_def py_int_def log_msg_def)
  have out3: "(ERROR, Msg ''Received invalid brightness : %s. Expected: 0-255'')
              \<in> set (logged (snd (refresh_derived io s)))" if "b < 0 \<or> 255 < b"
    using refresh_derived_logged [OF ne, of io] out2 [OF that] by auto
  show ?thesis
    using in_range out1 out2 out3 by (simp add: refresh_derived_brightness [OF ne])
qed

theorem brightness_range_checked_witness:
  "light_state (reporting example_status) = Some example_status
   \<and> get_brightness example_status = Some (PyInt 200)
   \<and> brightness (snd (update_brightness (reporting example_status))) = Some 200
   \<and> brightness (snd (refresh_derived example_io (reporting example_status))) = Some 200
   \<and> light_state (reporting (example_status\<lparr>get_brightness := Some (PyInt 300)\<rparr>))
       = Some (example_status\<lparr>get_brightness := Some (PyInt 300)\<rparr>)
   \<and> get_brightness (example_status\<lparr>get_brightness := Some (PyInt 300)\<rparr>)
       = Some (PyInt 300)
   \<and> brightness (snd (refresh_derived example_io
         (reporting (example_status\<lparr>get_brightness := Some (PyInt 300)\<rparr>)))) = None
   \<and> (ERROR, Msg ''Received invalid brightness : %s. Expected: 0-255'')
       \<in> set (logged (snd (refresh_derived example_io
             (reporting (example_status\<lparr>get_brightness := Some (PyInt 300)\<rparr>)))))"
proof -
  let ?p = "example_status\<lparr>get_brightness := Some (PyInt 300)\<rparr>"
  have g1: "light_state (reporting example_status) = Some example_status"
    by (simp add: reporting_def)
  have g2: "get_brightness example_status = Some (PyInt 200)"
    by (simp add: example_status_def)
  have h1: "light_state (reporting ?p) = Some ?p"
    by (simp add: reporting_def)
  have h2: "get_brightness ?p = Some (PyInt 300)"
    by simp
  show ?thesis
    using brightness_range_checked [OF g1 g2, of example_io]
      brightness_range_checked [OF h1 h2, of example_io] g1 g2 h1
    by simp
qed

theorem brightness_out_of_range_counterexample:
  "light_state (reporting (example_status\<lparr>get_brightness := Some (PyInt 300)\<rparr>))
     = Some (example_status\<lparr>get_brightness := Some (PyInt 300)\<rparr>)
   \<and> brightness (reporting (example_status\<lparr>get_brightness := Some (PyInt 300)\<rparr>))
       = Some 128
   \<and> brightness (snd (update_brightness
         (reporting (example_status\<lparr>get_brightness := Some (PyInt 300)\<rparr>)))) = None
   \<and> brightness (snd (refresh_derived example_io
         (reporting (example_status\<lparr>get_brightness := Some (PyInt 300)\<rparr>))))
       \<noteq> brightness (reporting (example_status\<lparr>get_brightness := Some (PyInt 300)\<rparr>))"
proof -
  let ?s = "reporting (example_status\<lparr>get_brightness := Some (PyInt 300)\<rparr>)"
  have l: "light_state ?s = Some (example_status\<lparr>get_brightness := Some (PyInt 300)\<rparr>)"
    by (simp add: reporting_def)
  have b: "brightness ?s = Some 128"
    by (simp add: reporting_def example_bulb_def WizBulb_def)
  have u: "brightness (snd (update_brightness ?s)) = None"
    by (simp add: update_brightness_def l py_int_def log_msg_def)
  have "light_state ?s \<noteq> None" using l by simp
  then have "brightness (snd (refresh_derived example_io ?s)) = None"
    using u by (simp add: refresh_derived_brightness)
  then show ?thesis using l b u by simp
qed

text \<open>
  Claim C8. When the device reports a colour temperature of 0, or none, the cached
  mired value after \<open>update_temperature\<close>, and after the whole refresh, is the
  value cached before.
\<close>

theorem temperature_kept_when_zero_or_absent:
  assumes "light_state s = Some p"
    and "get_colortemp p = Some 0 \<or> get_colortemp p = None"
  shows "temperature (snd (update_temperature s)) = temperature s
       \<and> temperature (snd (refresh_derived io s)) = temperature s"
proof -
  have "light_state (snd (update_brightness s)) = Some p"
    using assms(1) by (simp add: refresh_frame)
  then have "temperature (snd (update_temperature (snd (update_brightness s)))) = temperature s"
    using assms(2) by (auto simp: update_temperature_def refresh_frame)
  moreover have "temperature (snd (update_temperature s)) = temperature s"
    using assms by (auto simp: update_temperature_def)
  ultimately show ?thesis
    using assms(1) by (simp add: refresh_derived_temperature)
qed

theorem temperature_kept_when_zero_or_absent_witness:
  "light_state (reporting (example_status\<lparr>get_colortemp := Some 0\<rparr>))
     = Some (example_status\<lparr>get_colortemp := Some 0\<rparr>)
   \<and> get_colortemp (example_status\<lparr>get_colortemp := Some 0\<rparr>) = Some 0
   \<and> temperature (snd (update_temperature
         (reporting (example_status\<lparr>get_colortemp := Some 0\<rparr>)))) = Some 370
   \<and> temperature (snd (refresh_derived example_io
         (reporting (example_status\<lparr>get_colortemp := Some 0\<rparr>)))) = Some 370"
proof -
  let ?p = "example_status\<lparr>get_colortemp := Some 0\<rparr>"
  have h1: "light_state (reporting ?p) = Some ?p"
    by (simp add: reporting_def)
  have h2: "get_colortemp ?p = Some 0 \<or> get_colortemp ?p = None"
    by simp
  have t: "temperature (reporting ?p) = Some 370"
    by (simp add: reporting_def example_bulb_def WizBulb_def)
  show ?thesis
    using temperature_kept_when_zero_or_absent [OF h1 h2, of example_io] h1 t by simp
qed

text \<open>
  Claim C9. When the device reports no RGB data, or an RGB triple whose red channel
  is absent, the cached HS colour after \<open>update_color\<close>, and after the whole
  refresh, is the value cached before.
\<close>

theorem hscolor_kept_when_red_absent:
  assumes "light_state s = Some p"
    and "get_rgb p = None \<or> (\<exists>green blue. get_rgb p = Some (None, green, blue))"
  shows "hscolor (snd (update_color io s)) = hscolor s
       \<and> hscolor (snd (refresh_derived io s)) = hscolor s"
proof -
  let ?s2 = "snd (update_temperature (snd (update_brightness s)))"
  have "light_state ?s2 = Some p"
    using assms(1) by (simp add: refresh_frame)
  then have "hscolor (snd (update_color io ?s2)) = hscolor ?s2"
    using assms(2) by (auto simp: update_color_def)
  then have "hscolor (snd (update_color io ?s2)) = hscolor s"
    by (simp add: refresh_frame)
  moreover have "hscolor (snd (update_color io s)) = hscolor s"
    using assms by (auto simp: update_color_def)
  ultimately show ?thesis
    using assms(1) by (simp add: refresh_derived_hscolor)
qed

theorem hscolor_kept_when_red_absent_witness:
  "light_state (reporting (example_status\<lparr>get_rgb := Some (None, None, None)\<rparr>))
     = Some (example_status\<lparr>get_rgb := Some (None, None, None)\<rparr>)
   \<and> get_rgb (example_status\<lparr>get_rgb := Some (None, None, None)\<rparr>)
       = Some (None, None, None)
   \<and> hscolor (snd (update_color example_io
         (reporting (example_status\<lparr>get_rgb := Some (None, None, None)\<rparr>))))
       = Some (30, 50)
   \<and> hscolor (snd (refresh_derived example_io
         (reporting (example_status\<lparr>get_rgb := Some (None, None, None)\<rparr>))))
       = Some (30, 50)"
proof -
  let ?p = "example_status\<lparr>get_rgb := Some (None, None, None)\<rparr>"
  have h1: "light_state (reporting ?p) = Some ?p"
    by (simp add: reporting_def)
  have h2: "get_rgb ?p = None \<or> (\<exists>green blue. get_rgb ?p = Some (None, green, blue))"
    by simp
  have c: "hscolor (reporting ?p) = Some (30, 50)"
    by (simp add: reporting_def example_bulb_def WizBulb_def)
  show ?thesis
    using hscolor_kept_when_red_absent [OF h1 h2, of example_io] h1 c by simp
qed




subsection \<open>Failures of the device client\<close>

text \<open>
  Claim C3, as amended. The status fetch, the capability fetch and the identifier fetch
  each catch a timeout of their own call: the status fetch then marks the bulb
  unavailable and off, the other two leave every cached attribute as it was, and a poll
  cycle whose fetches only succeed or time out raises nothing. Any other exception of
  these three calls (a connection failure among them) is raised to the caller, and
  whatever the turn-on or the turn-off command raises, a timeout included, is raised to
  the caller as well.
\<close>

theorem fetch_timeouts_caught:
  "(io_updateState io = Inl WizLightTimeOutError \<longrightarrow>
      fst (update_state io s) = None
    \<and> cache_of (snd (update_state io s))
        = cache_of (s\<lparr>state := Some False, available := Some False\<rparr>))
 \<and> (io_get_bulbtype io = Inl WizLightTimeOutError \<longrightarrow>
      fst (get_bulb_type io s) = None
    \<and> cache_of (snd (get_bulb_type io s)) = cache_of s)
 \<and> (io_getMac io = Inl WizLightTimeOutError \<longrightarrow>
      fst (get_mac io s) = None
    \<and> cache_of (snd (get_mac io s)) = cache_of s)
 \<and> (timeout_or_ok (io_updateState io) \<and> timeout_or_ok (io_get_bulbtype io)
      \<and> timeout_or_ok (io_getMac io) \<longrightarrow> fst (async_update io s) = None)
 \<and> (io_updateState io = Inl ex \<and> ex \<noteq> WizLightTimeOutError \<longrightarrow>
      fst (update_state io s) = Some ex \<and> fst (async_update io s) = Some ex)
 \<and> (io_get_bulbtype io = Inl ex \<and> ex \<noteq> WizLightTimeOutError \<and> bulbtype s = None \<longrightarrow>
      fst (get_bulb_type io s) = Some ex)
 \<and> (io_getMac io = Inl ex \<and> ex \<noteq> WizLightTimeOutError \<longrightarrow>
      fst (get_mac io s) = Some ex)
 \<and> (turn_on_colortemp kw = Inr colortemp \<and> turn_on_sceneid io kw = Inr sceneid \<longrightarrow>
      fst (async_turn_on io kw s) =
        io_turn_on io (if sceneid = Some 1000 then PilotBuilder_default
                       else PilotBuilder (turn_on_rgb io kw) (ATTR_BRIGHTNESS kw) colortemp sceneid))
 \<and> fst (async_turn_off io s) = io_turn_off io"
proof -
  have a: "io_updateState io = Inl WizLightTimeOutError \<longrightarrow>
      fst (update_state io s) = None
    \<and> cache_of (snd (update_state io s))
        = cache_of (s\<lparr>state := Some False, available := Some False\<rparr>)"
    by (simp add: update_state_def update_state_unavailable_def cache_of_def log_msg_def
          log_exc_def called_def Let_def)
  have b: "io_get_bulbtype io = Inl WizLightTimeOutError \<longrightarrow>
      fst (get_bulb_type io s) = None \<and> cache_of (snd (get_bulb_type io s)) = cache_of s"
    by (simp add: get_bulb_type_def cache_of_def log_msg_def called_def Let_def)
  have c: "io_getMac io = Inl WizLightTimeOutError \<longrightarrow>
      fst (get_mac io s) = None \<and> cache_of (snd (get_mac io s)) = cache_of s"
    by (simp add: get_mac_def cache_of_def log_msg_def called_def Let_def)
  have d: "timeout_or_ok (io_updateState io) \<and> timeout_or_ok (io_get_bulbtype io)
      \<and> timeout_or_ok (io_getMac io) \<longrightarrow> fst (async_update io s) = None"
    using async_update_no_raise by blast
  have e: "io_updateState io = Inl ex \<and> ex \<noteq> WizLightTimeOutError \<longrightarrow>
      fst (update_state io s) = Some ex \<and> fst (async_update io s) = Some ex"
    by (simp add: update_state_def async_update_def Let_def)
  have f: "io_get_bulbtype io = Inl ex \<and> ex \<noteq> WizLightTimeOutError \<and> bulbtype s = None \<longrightarrow>
      fst (get_bulb_type io s) = Some ex"
    by (simp add: get_bulb_type_def Let_def)
  have g: "io_getMac io = Inl ex \<and> ex \<noteq> WizLightTimeOutError \<longrightarrow>
      fst (get_mac io s) = Some ex"
    by (simp add: get_mac_def Let_def)
  have h: "turn_on_colortemp kw = Inr colortemp \<and> turn_on_sceneid io kw = Inr sceneid \<longrightarrow>
      fst (async_turn_on io kw s) =
        io_turn_on io (if sceneid = Some 1000 then PilotBuilder_default
                       else PilotBuilder (turn_on_rgb io kw) (ATTR_BRIGHTNESS kw) colortemp sceneid)"
    by (simp add: async_turn_on_def Let_def)
  have i: "fst (async_turn_off io s) = io_turn_off io"
    by (simp add: async_turn_off_def)
  show ?thesis
    using a b c d e f g h i by blast
qed

theorem fetch_timeouts_caught_witness:
  "io_updateState all_timeout_io = Inl WizLightTimeOutError
 \<and> io_get_bulbtype all_timeout_io = Inl WizLightTimeOutError
 \<and> io_getMac all_timeout_io = Inl WizLightTimeOutError
 \<and> fst (async_update all_timeout_io example_bulb) = None
 \<and> cache_of (snd (get_bulb_type all_timeout_io example_bulb)) = cache_of example_bulb
 \<and> cache_of (snd (get_mac all_timeout_io example_bulb)) = cache_of example_bulb
 \<and> io_updateState unreachable_io = Inl WizLightConnectionError
 \<and> fst (async_update unreachable_io example_bulb) = Some WizLightConnectionError
 \<and> turn_on_colortemp no_kwargs = Inr None
 \<and> turn_on_sceneid turn_on_timeout_io no_kwargs = Inr None
 \<and> fst (async_turn_on turn_on_timeout_io no_kwargs example_bulb) = Some WizLightTimeOutError"
proof -
  have t: "io_updateState all_timeout_io = Inl WizLightTimeOutError"
    "io_get_bulbtype all_timeout_io = Inl WizLightTimeOutError"
    "io_getMac all_timeout_io = Inl WizLightTimeOutError"
    by (simp_all add: all_timeout_io_def)
  have ok: "timeout_or_ok (io_updateState all_timeout_io)"
    "timeout_or_ok (io_get_bulbtype all_timeout_io)"
    "timeout_or_ok (io_getMac all_timeout_io)"
    by (simp_all add: t timeout_or_ok_def)
  have u: "io_updateState unreachable_io = Inl WizLightConnectionError"
    by (simp add: unreachable_io_def)
  have k: "turn_on_colortemp no_kwargs = Inr None"
    "turn_on_sceneid turn_on_timeout_io no_kwargs = Inr None"
    by (simp_all add: turn_on_colortemp_def turn_on_sceneid_def no_kwargs_def)
  have p: "io_turn_on turn_on_timeout_io
             (PilotBuilder (turn_on_rgb turn_on_timeout_io no_kwargs)
                (ATTR_BRIGHTNESS no_kwargs) None None) = Some WizLightTimeOutError"
    by (simp add: turn_on_timeout_io_def)
  show ?thesis
    using fetch_timeouts_caught [where io = all_timeout_io and s = example_bulb]
      fetch_timeouts_caught [where io = unreachable_io and s = example_bulb
        and ex = WizLightConnectionError]
      fetch_timeouts_caught [where io = turn_on_timeout_io and s = example_bulb
        and kw = no_kwargs and colortemp = None and sceneid = None]
      t ok u k p
    by simp
qed

theorem command_failures_propagate_counterexample:
  "fst (async_turn_on turn_on_timeout_io no_kwargs example_bulb) = Some WizLightTimeOutError
 \<and> fst (async_turn_off turn_off_timeout_io example_bulb) = Some WizLightTimeOutError
 \<and> fst (async_update unreachable_io example_bulb) = Some WizLightConnectionError"
  by (simp add: async_turn_on_def async_turn_off_def async_update_def update_state_def
        turn_on_timeout_io_def turn_off_timeout_io_def unreachable_io_def example_io_def
        no_kwargs_def turn_on_colortemp_def turn_on_sceneid_def Let_def)

text \<open>
  Claim C5, as amended. In every poll cycle the status fetch is made first, and a status
  fetch that raises anything other than a timeout ends the cycle. Otherwise, after
  availability is updated, the capability descriptor is fetched only if none is cached,
  and, unless that fetch raises something other than a timeout, the identifier is then
  fetched whether or not one is cached. A timeout of either fetch is caught: the cached
  value stays, the cycle goes on, and the cycle raises only what a fetch raises other
  than a timeout. After a timeout of the capability fetch, the next cycle whose status
  fetch does not raise fetches the descriptor again.
\<close>

theorem lazy_fetches:
  "fst (async_update io s) =
     (case raised (io_updateState io) of
        Some ex \<Rightarrow> Some ex
      | None \<Rightarrow>
          (case (if bulbtype s = None then raised (io_get_bulbtype io) else None) of
             Some ex \<Rightarrow> Some ex
           | None \<Rightarrow> raised (io_getMac io)))
 \<and> calls (snd (async_update io s)) =
     calls s @ [UpdateState] @
       (if raised (io_updateState io) \<noteq> None then []
        else (if bulbtype s = None then [GetBulbtype] else []) @
             (if bulbtype s = None \<and> raised (io_get_bulbtype io) \<noteq> None then []
              else [GetMac]))
 \<and> (bulbtype s \<noteq> None \<or> io_get_bulbtype io = Inl WizLightTimeOutError \<longrightarrow>
      bulbtype (snd (async_update io s)) = bulbtype s)
 \<and> (io_getMac io = Inl WizLightTimeOutError \<longrightarrow>
      mac (snd (async_update io s)) = mac s)
 \<and> (bulbtype s = None \<and> io_get_bulbtype io = Inl WizLightTimeOutError \<longrightarrow>
      calls (snd (async_update io' (snd (async_update io s)))) =
        calls (snd (async_update io s)) @ [UpdateState] @
          (if raised (io_updateState io') \<noteq> None then []
           else [GetBulbtype] @
                (if raised (io_get_bulbtype io') \<noteq> None then [] else [GetMac])))"
proof -
  let ?s' = "snd (async_update io s)"
  have bt: "bulbtype ?s' = bulbtype s"
    if "bulbtype s \<noteq> None \<or> io_get_bulbtype io = Inl WizLightTimeOutError"
    using that by (auto simp: async_update_cases(3))
  have m: "mac ?s' = mac s" if "io_getMac io = Inl WizLightTimeOutError"
    using that by (simp add: async_update_cases(4))
  have retry: "calls (snd (async_update io' ?s')) =
        calls ?s' @ [UpdateState] @
          (if raised (io_updateState io') \<noteq> None then []
           else [GetBulbtype] @
                (if raised (io_get_bulbtype io') \<noteq> None then [] else [GetMac]))"
    if "bulbtype s = None \<and> io_get_bulbtype io = Inl WizLightTimeOutError"
  proof -
    have "bulbtype ?s' = None" using bt that by simp
    then show ?thesis by (simp add: async_update_cases(2) [of io' ?s'])
  qed
  show ?thesis
    using async_update_cases(1) [of io s] async_update_cases(2) [of io s] bt m retry
    by blast
qed

theorem lazy_fetches_witness:
  "bulbtype example_bulb = None
 \<and> io_get_bulbtype bulbtype_timeout_io = Inl WizLightTimeOutError
 \<and> fst (async_update bulbtype_timeout_io example_bulb) = None
 \<and> calls (snd (async_update bulbtype_timeout_io example_bulb))
     = [UpdateState, GetBulbtype, GetMac]
 \<and> bulbtype (snd (async_update bulbtype_timeout_io example_bulb)) = None
 \<and> calls (snd (async_update example_io (snd (async_update bulbtype_timeout_io example_bulb))))
     = [UpdateState, GetBulbtype, GetMac, UpdateState, GetBulbtype, GetMac]"
proof -
  have r: "raised (io_updateState bulbtype_timeout_io) = None"
    "raised (io_get_bulbtype bulbtype_timeout_io) = None"
    "raised (io_getMac bulbtype_timeout_io) = None"
    "raised (io_updateState example_io) = None"
    "raised (io_get_bulbtype example_io) = None"
    by (simp_all add: bulbtype_timeout_io_def example_io_def raised_def)
  have b: "bulbtype example_bulb = None" "calls example_bulb = []"
    by (simp_all add: example_bulb_def WizBulb_def)
  have t: "io_get_bulbtype bulbtype_timeout_io = Inl WizLightTimeOutError"
    by (simp add: bulbtype_timeout_io_def)
  show ?thesis
    using lazy_fetches [of bulbtype_timeout_io example_bulb example_io] r b t by simp
qed

theorem identifier_fetched_when_cached_counterexample:
  "mac known_bulb = Some ''a8bb50d4e5f6''
 \<and> bulbtype known_bulb = Some example_bulb_type
 \<and> calls known_bulb = []
 \<and> calls (snd (async_update example_io known_bulb)) = [UpdateState, GetMac]"
proof -
  have ok: "timeout_or_ok (io_updateState example_io)" "timeout_or_ok (io_get_bulbtype example_io)"
    "timeout_or_ok (io_getMac example_io)"
    by (simp_all add: example_io_def timeout_or_ok_def)
  have k: "mac known_bulb = Some ''a8bb50d4e5f6''" "bulbtype known_bulb = Some example_bulb_type"
    "calls known_bulb = []"
    by (simp_all add: known_bulb_def example_bulb_def WizBulb_def)
  show ?thesis
    using async_update_calls [OF ok, of known_bulb] k by simp
qed

subsection \<open>Features and colour-temperature bounds\<close>

text \<open>
  Claim C4. For a bulb whose cached descriptor reports an unknown model, the supported
  features are the full set, but the two colour-temperature bounds come back as the
  kelvin numbers 6500 and 2500 themselves, where the bulb without a cached descriptor
  reports their conversions to mireds, 153 and 400.
\<close>

theorem unknown_bulb_bounds_left_in_kelvin:
  "bulbtype unknown_bulb = Some unknown_bulb_type
 \<and> kelvin_range unknown_bulb_type = Inl WizLightNotKnownBulb
 \<and> supported_features unknown_bulb
     = Inr (SUPPORT_BRIGHTNESS OR SUPPORT_COLOR OR SUPPORT_COLOR_TEMP OR SUPPORT_EFFECT)
 \<and> min_mireds unknown_bulb = Inr 6500
 \<and> max_mireds unknown_bulb = Inr 2500
 \<and> color_temperature_kelvin_to_mired 6500 = Inr 153
 \<and> color_temperature_kelvin_to_mired 2500 = Inr 400
 \<and> min_mireds example_bulb = Inr 153
 \<and> max_mireds example_bulb = Inr 400"
  by (simp add: unknown_bulb_def unknown_bulb_type_def example_bulb_def WizBulb_def
        supported_features_def featuremap_def min_mireds_def max_mireds_def
        kelvin_max_map_def kelvin_min_map_def color_temperature_kelvin_to_mired_def)

subsection \<open>Turning on\<close>

text \<open>
  Claim C6. When the effect name of a turn-on request resolves to the scene id 1000,
  the command sent to the device is the bare command: it carries no colour, no
  brightness, no colour temperature and no scene, whatever else the request supplies.
  (A colour temperature of 0 mired in the request raises in the conversion before anything
  is sent.)
\<close>

theorem rhythm_sends_bare_command:
  assumes "ATTR_EFFECT kw = Some e"
    and "get_id_from_scene_name io e = Inr 1000"
  shows "(if ATTR_COLOR_TEMP kw = Some 0
          then fst (async_turn_on io kw s) = Some ZeroDivisionError
             \<and> calls (snd (async_turn_on io kw s)) = calls s
          else fst (async_turn_on io kw s) = io_turn_on io PilotBuilder_default
             \<and> calls (snd (async_turn_on io kw s)) = calls s @ [TurnOn PilotBuilder_default])
       \<and> pb_rgb PilotBuilder_default = None
       \<and> pb_brightness PilotBuilder_default = None
       \<and> pb_colortemp PilotBuilder_default = None
       \<and> pb_scene PilotBuilder_default = None"
  using assms
  by (auto simp: async_turn_on_def turn_on_colortemp_def turn_on_sceneid_def
        color_temperature_mired_to_kelvin_def PilotBuilder_default_def PilotBuilder_def
        called_def log_msg_def Let_def split: option.splits)

theorem rhythm_sends_bare_command_witness:
  "ATTR_EFFECT rhythm_kwargs = Some ''Rhythm''
 \<and> get_id_from_scene_name example_io ''Rhythm'' = Inr 1000
 \<and> ATTR_RGB_COLOR rhythm_kwargs = Some (0, 0, 255)
 \<and> ATTR_BRIGHTNESS rhythm_kwargs = Some 200
 \<and> ATTR_COLOR_TEMP rhythm_kwargs = Some 250
 \<and> calls (snd (async_turn_on example_io rhythm_kwargs example_bulb))
     = [TurnOn \<lparr>pb_rgb = None, pb_brightness = None, pb_colortemp = None, pb_scene = None\<rparr>]"
proof -
  have h1: "ATTR_EFFECT rhythm_kwargs = Some ''Rhythm''"
    by (simp add: rhythm_kwargs_def)
  have h2: "get_id_from_scene_name example_io ''Rhythm'' = Inr 1000"
    by (simp add: example_io_def)
  have k: "ATTR_RGB_COLOR rhythm_kwargs = Some (0, 0, 255)"
    "ATTR_BRIGHTNESS rhythm_kwargs = Some 200" "ATTR_COLOR_TEMP rhythm_kwargs = Some 250"
    by (simp_all add: rhythm_kwargs_def)
  have c: "calls example_bulb = []"
    by (simp add: example_bulb_def WizBulb_def)
  show ?thesis
    using rhythm_sends_bare_command [OF h1 h2, of example_bulb] h1 h2 k c
    by (simp add: PilotBuilder_default_def PilotBuilder_def)
qed

text \<open>
  Claim C7, as amended. For a turn-on request that supplies both an HS colour and an RGB
  colour: when the effect, if given, resolves to a scene id other than 1000 and neither
  the colour-temperature conversion nor the effect lookup raises, one command is sent
  and the RGB value it carries is the HS colour converted to RGB, not the RGB colour
  supplied. When the effect resolves to 1000 the bare command is sent, which carries no
  RGB value; when a conversion raises, nothing is sent.
\<close>

theorem hs_color_takes_precedence:
  assumes "ATTR_HS_COLOR kw = Some (h, sat)"
    and "ATTR_RGB_COLOR kw = Some c"
  shows "(case turn_on_colortemp kw of
            Inl ex \<Rightarrow>
              fst (async_turn_on io kw s) = Some ex
            \<and> calls (snd (async_turn_on io kw s)) = calls s
          | Inr colortemp \<Rightarrow>
              (case turn_on_sceneid io kw of
                 Inl ex \<Rightarrow>
                   fst (async_turn_on io kw s) = Some ex
                 \<and> calls (snd (async_turn_on io kw s)) = calls s
               | Inr sceneid \<Rightarrow>
                   (if sceneid = Some 1000
                    then calls (snd (async_turn_on io kw s))
                           = calls s @ [TurnOn PilotBuilder_default]
                       \<and> pb_rgb PilotBuilder_default = None
                    else calls (snd (async_turn_on io kw s))
                           = calls s @ [TurnOn (PilotBuilder (Some (color_hs_to_RGB io h sat))
                                                  (ATTR_BRIGHTNESS kw) colortemp sceneid)]
                       \<and> pb_rgb (PilotBuilder (Some (color_hs_to_RGB io h sat))
                                   (ATTR_BRIGHTNESS kw) colortemp sceneid)
                           = Some (color_hs_to_RGB io h sat))))"
  using assms
  by (simp add: async_turn_on_def turn_on_rgb_def PilotBuilder_default_def PilotBuilder_def
        called_def log_msg_def Let_def split: sum.splits)

theorem hs_color_takes_precedence_witness:
  "ATTR_HS_COLOR both_colors_kwargs = Some (0, 100)
 \<and> ATTR_RGB_COLOR both_colors_kwargs = Some (0, 0, 255)
 \<and> turn_on_colortemp both_colors_kwargs = Inr None
 \<and> turn_on_sceneid example_io both_colors_kwargs = Inr None
 \<and> color_hs_to_RGB example_io 0 100 = (255, 0, 0)
 \<and> calls (snd (async_turn_on example_io both_colors_kwargs example_bulb))
     = [TurnOn (PilotBuilder (Some (255, 0, 0)) None None None)]
 \<and> pb_rgb (PilotBuilder (Some (255, 0, 0)) None None None) = Some (255, 0, 0)"
proof -
  have h1: "ATTR_HS_COLOR both_colors_kwargs = Some (0, 100)"
    by (simp add: both_colors_kwargs_def)
  have h2: "ATTR_RGB_COLOR both_colors_kwargs = Some (0, 0, 255)"
    by (simp add: both_colors_kwargs_def)
  have k: "turn_on_colortemp both_colors_kwargs = Inr None"
    "turn_on_sceneid example_io both_colors_kwargs = Inr None"
    "ATTR_BRIGHTNESS both_colors_kwargs = None"
    by (simp_all add: turn_on_colortemp_def turn_on_sceneid_def both_colors_kwargs_def)
  have c: "color_hs_to_RGB example_io 0 100 = (255, 0, 0)"
    by (simp add: example_io_def)
  have e: "calls example_bulb = []"
    by (simp add: example_bulb_def WizBulb_def)
  show ?thesis
    using hs_color_takes_precedence [OF h1 h2, of example_io example_bulb] h1 h2 k c e
    by simp
qed

theorem rhythm_drops_hs_color_counterexample:
  "ATTR_HS_COLOR rhythm_both_kwargs = Some (0, 100)
 \<and> ATTR_RGB_COLOR rhythm_both_kwargs = Some (0, 0, 255)
 \<and> color_hs_to_RGB example_io 0 100 = (255, 0, 0)
 \<and> fst (async_turn_on example_io rhythm_both_kwargs example_bulb) = None
 \<and> calls (snd (async_turn_on example_io rhythm_both_kwargs example_bulb))
     = [TurnOn PilotBuilder_default]
 \<and> pb_rgb PilotBuilder_default = None"
  by (simp add: async_turn_on_def turn_on_rgb_def turn_on_colortemp_def turn_on_sceneid_def
        rhythm_both_kwargs_def example_io_def example_bulb_def WizBulb_def called_def
        PilotBuilder_default_def PilotBuilder_def Let_def)

end
